theory Spec2Isabelle
  imports Complex_Main
begin

section \<open>The chat core of \<open>lib/uMessage.js\<close>\<close>

text \<open>
  The class \<open>uMessage\<close> keeps two insertion-ordered JavaScript maps,
  \<open>users\<close> (socket to \<open>{name, mobile}\<close>) and \<open>groups\<close> (group name to a
  \<open>Set\<close> of sockets), and reacts to three callbacks of the transport:
  \<open>handleOpen\<close>, \<open>handleMessage\<close> and \<open>handleClose\<close>. The file \<open>server.js\<close>
  carries the same three bodies inlined over two module-level maps, so one model
  serves both.

  A socket is an opaque handle compared by identity; it is a natural number here.
  \<open>socket.send\<close> is the transport's: a handler only hands it a payload, and the
  model records the call.
\<close>

type_synonym socket = nat

subsection \<open>Parsed frames\<close>

text \<open>
  The values \<open>JSON.parse\<close> returns. A number is a double other than \<open>NaN\<close>; the
  two zeros are one value, as \<open>===\<close> and the key comparison of \<open>Map\<close> take them.
  An object is given by its own properties; \<open>map_of\<close> reads one, and a key is
  listed once.
\<close>

datatype number = Finite real | PlusInfinity | MinusInfinity

datatype json =
    JNull
  | JBool bool
  | JNumber number
  | JString string
  | JArray "json list"
  | JObject "(string \<times> json) list"

text \<open>What a handler holds after destructuring: a value, or \<open>undefined\<close>.\<close>

type_synonym jsval = "json option"

datatype error = SyntaxError | TypeError

text \<open>
  \<open>a === b\<close> for a value \<open>a\<close> kept from an earlier frame and a value \<open>b\<close> of
  the frame at hand; \<open>Map\<close> compares its keys the same way, \<open>NaN\<close> apart. Arrays
  and objects are compared by reference, and every \<open>JSON.parse\<close> builds new ones.
\<close>

fun strictEquals :: "jsval \<Rightarrow> jsval \<Rightarrow> bool" where
  "strictEquals None None = True"
| "strictEquals (Some JNull) (Some JNull) = True"
| "strictEquals (Some (JBool a)) (Some (JBool b)) = (a = b)"
| "strictEquals (Some (JNumber a)) (Some (JNumber b)) = (a = b)"
| "strictEquals (Some (JString a)) (Some (JString b)) = (a = b)"
| "strictEquals _ _ = False"

fun primitive :: "jsval \<Rightarrow> bool" where
  "primitive (Some (JArray xs)) = False"
| "primitive (Some (JObject fs)) = False"
| "primitive _ = True"

text \<open>
  Whether the conversion to a string inside a template literal throws a
  \<open>TypeError\<close>. An object is converted by its \<open>toString\<close>, then its
  \<open>valueOf\<close>: an own property \<open>toString\<close> parsed from JSON is not callable and
  hides the inherited one, and no \<open>valueOf\<close> gives a primitive then. An array joins
  the conversions of its elements, \<open>null\<close> counting as the empty string. The limit
  that a runtime's stack puts on the depth of nesting is left out.
\<close>

fun toStringThrows :: "json \<Rightarrow> bool" where
  "toStringThrows (JArray xs) = (\<exists>x \<in> set xs. toStringThrows x)"
| "toStringThrows (JObject fs) = (map_of fs ''toString'' \<noteq> None)"
| "toStringThrows j = False"

definition throws :: "jsval \<Rightarrow> bool" where
  "throws v = (case v of None \<Rightarrow> False | Some j \<Rightarrow> toStringThrows j)"

subsection \<open>Outgoing payloads and effects\<close>

record user =
  name :: jsval
  mobile :: jsval

text \<open>The objects handed to \<open>JSON.stringify\<close>, one constructor for each \<open>type\<close>.\<close>

datatype payload =
    Registered bool
  | GroupList "jsval list"
  | UserList "user list"
  | UserJoined user
  | UserLeft jsval
  | JoinedGroup jsval
  | GroupCreated jsval
  | ChatMessage jsval jsval jsval jsval

datatype logline =
    Received string
  | ErrorProcessing error
  | UserRegistered jsval jsval
  | UserJoinedGroup jsval
  | WebSocketClosed

text \<open>
  A handler's visible effects, in program order: \<open>socket.send(payload, false, true)\<close>
  and the lines written to the console.
\<close>

datatype effect = Send socket payload | Console logline

fun sent :: "effect list \<Rightarrow> (socket \<times> payload) list" where
  "sent [] = []"
| "sent (Send s p # es) = (s, p) # sent es"
| "sent (Console l # es) = sent es"

fun logged :: "effect list \<Rightarrow> logline list" where
  "logged [] = []"
| "logged (Send s p # es) = logged es"
| "logged (Console l # es) = l # logged es"

subsection \<open>JavaScript \<open>Map\<close> and \<open>Set\<close>\<close>

text \<open>
  A \<open>Map\<close> iterates in insertion order, \<open>set\<close> on a present key replaces the value
  where the key stands and appends otherwise, and \<open>delete\<close> takes the key's entry
  out: an association list in which a key stands once. The first argument is the
  comparison of keys: identity for sockets, \<open>strictEquals\<close> for group names.
\<close>

fun Map_get :: "('k \<Rightarrow> 'k \<Rightarrow> bool) \<Rightarrow> ('k \<times> 'v) list \<Rightarrow> 'k \<Rightarrow> 'v option" where
  "Map_get eq [] k = None"
| "Map_get eq ((k', v) # m) k = (if eq k' k then Some v else Map_get eq m k)"

definition Map_has :: "('k \<Rightarrow> 'k \<Rightarrow> bool) \<Rightarrow> ('k \<times> 'v) list \<Rightarrow> 'k \<Rightarrow> bool" where
  "Map_has eq m k = (Map_get eq m k \<noteq> None)"

fun Map_set ::
  "('k \<Rightarrow> 'k \<Rightarrow> bool) \<Rightarrow> 'k \<Rightarrow> 'v \<Rightarrow> ('k \<times> 'v) list \<Rightarrow> ('k \<times> 'v) list" where
  "Map_set eq k v [] = [(k, v)]"
| "Map_set eq k v ((k', v') # m) =
     (if eq k' k then (k', v) # m else (k', v') # Map_set eq k v m)"

fun Map_delete :: "('k \<Rightarrow> 'k \<Rightarrow> bool) \<Rightarrow> 'k \<Rightarrow> ('k \<times> 'v) list \<Rightarrow> ('k \<times> 'v) list" where
  "Map_delete eq k [] = []"
| "Map_delete eq k ((k', v) # m) =
     (if eq k' k then Map_delete eq k m else (k', v) # Map_delete eq k m)"

definition Map_keys :: "('k \<times> 'v) list \<Rightarrow> 'k list" where
  "Map_keys m = map fst m"

text \<open>A \<open>Set\<close> iterates in insertion order and holds each element once.\<close>

definition Set_add :: "'a \<Rightarrow> 'a list \<Rightarrow> 'a list" where
  "Set_add x xs = (if x \<in> set xs then xs else xs @ [x])"

fun Set_delete :: "'a \<Rightarrow> 'a list \<Rightarrow> 'a list" where
  "Set_delete x [] = []"
| "Set_delete x (y # ys) = (if y = x then Set_delete x ys else y # Set_delete x ys)"

subsection \<open>The state and its handlers\<close>

record uMessage =
  users :: "(socket \<times> user) list"
  groups :: "(jsval \<times> socket list) list"

definition constructor :: uMessage where
  "constructor = \<lparr>users = [], groups = []\<rparr>"

definition handleOpen :: "socket \<Rightarrow> uMessage \<Rightarrow> uMessage \<times> effect list" where
  "handleOpen ws st = (st, [])"

text \<open>
  \<open>users.forEach((u, socket) => { if (socket !== ws) socket.send(p) })\<close>, the
  broadcast of \<open>_handleRegister\<close> and \<open>handleClose\<close>.
\<close>

fun sendToOthers :: "socket \<Rightarrow> payload \<Rightarrow> (socket \<times> user) list \<Rightarrow> effect list" where
  "sendToOthers ws p [] = []"
| "sendToOthers ws p ((socket, u) # m) =
     (if socket \<noteq> ws then Send socket p # sendToOthers ws p m else sendToOthers ws p m)"

text \<open>\<open>for (const [socket, u] of users.entries()) if (socket !== ws) userList.push(u)\<close>\<close>

fun otherUsers :: "socket \<Rightarrow> (socket \<times> user) list \<Rightarrow> user list" where
  "otherUsers ws [] = []"
| "otherUsers ws ((socket, u) # m) =
     (if socket \<noteq> ws then u # otherUsers ws m else otherUsers ws m)"

text \<open>
  A private handler returns the state it leaves, its effects, and the exception it
  threw, if any; what it did before throwing stays done.

  \<open>_handleRegister\<close>: the template literal of the \<open>console.log\<close> after the
  \<open>registered\<close> send converts \<open>name\<close> and \<open>mobile\<close> to strings, and where that
  throws the rest of the handler does not run.
\<close>

definition handleRegister ::
  "socket \<Rightarrow> (string \<times> json) list \<Rightarrow> uMessage \<Rightarrow> uMessage \<times> effect list \<times> error option" where
  "handleRegister ws json st =
     (let n = map_of json ''name'';
          m = map_of json ''mobile'';
          us = Map_set (=) ws \<lparr>name = n, mobile = m\<rparr> (users st)
      in if throws n \<or> throws m
         then (st\<lparr>users := us\<rparr>, [Send ws (Registered True)], Some TypeError)
         else (let groupList = Map_keys (groups st);
                   userList = otherUsers ws us;
                   userJoinedPayload = UserJoined \<lparr>name = n, mobile = m\<rparr>
               in (st\<lparr>users := us\<rparr>,
                   [Send ws (Registered True),
                    Console (UserRegistered n m),
                    Send ws (GroupList groupList),
                    Send ws (UserList userList)]
                   @ sendToOthers ws userJoinedPayload us,
                   None)))"

text \<open>
  \<open>_handleJoinGroup\<close>: \<open>groups.set(groupName, new Set())\<close> on an absent key appends
  the entry, and the \<open>groups.get(groupName)\<close> after it returns that new \<open>Set\<close>, the
  key being the very value just stored; on a present key \<open>get\<close> returns the \<open>Set\<close>
  the map holds, which \<open>add\<close> changes in place. The template literal of the
  \<open>console.log\<close> after the \<open>joined_group\<close> send converts \<open>groupName\<close>.
\<close>

definition handleJoinGroup ::
  "socket \<Rightarrow> (string \<times> json) list \<Rightarrow> uMessage \<Rightarrow> uMessage \<times> effect list \<times> error option" where
  "handleJoinGroup ws json st =
     (let groupName = map_of json ''groupName'';
          isNew = \<not> Map_has strictEquals (groups st) groupName;
          gs = (if isNew
                then groups st @ [(groupName, Set_add ws [])]
                else Map_set strictEquals groupName
                       (Set_add ws (the (Map_get strictEquals (groups st) groupName)))
                       (groups st))
      in if throws groupName
         then (st\<lparr>groups := gs\<rparr>, [Send ws (JoinedGroup groupName)], Some TypeError)
         else (st\<lparr>groups := gs\<rparr>,
               [Send ws (JoinedGroup groupName),
                Console (UserJoinedGroup groupName)]
               @ (if isNew
                  then map (\<lambda>(socket, userData). Send socket (GroupCreated groupName)) (users st)
                  else []),
               None))"

text \<open>The \<open>for\<close> loop with \<open>break\<close> that looks a direct-message target up by \<open>mobile\<close>.\<close>

fun targetSocket :: "(socket \<times> user) list \<Rightarrow> jsval \<Rightarrow> socket option" where
  "targetSocket [] to = None"
| "targetSocket ((socket, userData) # m) to =
     (if strictEquals (mobile userData) to then Some socket else targetSocket m to)"

definition messagePayload :: "user option \<Rightarrow> jsval \<Rightarrow> jsval \<Rightarrow> payload" where
  "messagePayload sender to content =
     ChatMessage (case sender of Some u \<Rightarrow> name u | None \<Rightarrow> Some (JString ''Anonymous''))
                 (case sender of Some u \<Rightarrow> mobile u | None \<Rightarrow> Some (JString ''?''))
                 to content"

text \<open>\<open>_handleChatMessage\<close> only compares and serialises; nothing in it throws.\<close>

definition handleChatMessage ::
  "socket \<Rightarrow> (string \<times> json) list \<Rightarrow> uMessage \<Rightarrow> uMessage \<times> effect list \<times> error option" where
  "handleChatMessage ws json st =
     (let to = map_of json ''to'';
          content = map_of json ''content''
      in if Map_has strictEquals (groups st) to
         then (let group = the (Map_get strictEquals (groups st) to);
                   sender = Map_get (=) (users st) ws;
                   payload = messagePayload sender to content
               in (st, map (\<lambda>socket. Send socket payload) group, None))
         else (case targetSocket (users st) to of
                 None \<Rightarrow> (st, [], None)
               | Some target \<Rightarrow>
                   (let sender = Map_get (=) (users st) ws
                    in (st, [Send target (messagePayload sender to content)], None))))"

text \<open>
  \<open>handleMessage\<close>: the whole body sits in \<open>try\<close>, and \<open>catch\<close> only writes to the
  console. \<open>JSON.parse\<close> is the runtime's; it is a parameter, \<open>None\<close> where it
  throws a \<open>SyntaxError\<close>. Reading \<open>.type\<close> throws on \<open>null\<close> and gives
  \<open>undefined\<close> on the other values that are no objects. An exception of a private
  handler ends in the same \<open>catch\<close>.
\<close>

definition handleMessage ::
  "(string \<Rightarrow> json option) \<Rightarrow> socket \<Rightarrow> string \<Rightarrow> uMessage \<Rightarrow> uMessage \<times> effect list" where
  "handleMessage JSON_parse ws text st =
     (case JSON_parse text of
        None \<Rightarrow> (st, [Console (Received text), Console (ErrorProcessing SyntaxError)])
      | Some JNull \<Rightarrow> (st, [Console (Received text), Console (ErrorProcessing TypeError)])
      | Some (JObject json) \<Rightarrow>
          (let (st', out, thrown) =
                 (if map_of json ''type'' = Some (JString ''register'')
                  then handleRegister ws json st
                  else if map_of json ''type'' = Some (JString ''join_group'')
                  then handleJoinGroup ws json st
                  else if map_of json ''type'' = Some (JString ''message'')
                  then handleChatMessage ws json st
                  else (st, [], None))
           in (st', Console (Received text) # out
                    @ (case thrown of None \<Rightarrow> [] | Some e \<Rightarrow> [Console (ErrorProcessing e)])))
      | Some _ \<Rightarrow> (st, [Console (Received text)]))"

definition handleClose :: "socket \<Rightarrow> uMessage \<Rightarrow> uMessage \<times> effect list" where
  "handleClose ws st =
     (let user = Map_get (=) (users st) ws
      in (\<lparr>users = Map_delete (=) ws (users st),
           groups = map (\<lambda>(groupName, group). (groupName, Set_delete ws group)) (groups st)\<rparr>,
          Console WebSocketClosed
          # (case user of
               None \<Rightarrow> []
             | Some u \<Rightarrow> sendToOthers ws (UserLeft (mobile u)) (users st))))"

subsection \<open>Event sequences\<close>

datatype event = Open socket | Frame socket string | Close socket

fun step :: "(string \<Rightarrow> json option) \<Rightarrow> event \<Rightarrow> uMessage \<Rightarrow> uMessage \<times> effect list" where
  "step JSON_parse (Open ws) st = handleOpen ws st"
| "step JSON_parse (Frame ws text) st = handleMessage JSON_parse ws text st"
| "step JSON_parse (Close ws) st = handleClose ws st"

fun run :: "(string \<Rightarrow> json option) \<Rightarrow> event list \<Rightarrow> uMessage \<Rightarrow> uMessage" where
  "run JSON_parse [] st = st"
| "run JSON_parse (e # es) st = run JSON_parse es (fst (step JSON_parse e st))"



subsection \<open>Well-formed states\<close>

text \<open>
  What the containers guarantee by construction: \<open>users\<close> holds a socket once and
  a \<open>Set\<close> holds an element once.
\<close>

definition wf :: "uMessage \<Rightarrow> bool" where
  "wf st = (distinct (map fst (users st))
            \<and> list_all (\<lambda>(groupName, group). distinct group) (groups st))"

subsection \<open>Example frames\<close>

text \<open>
  The value of \<open>JSON.parse\<close> on the frames that the examples below send; any
  other text stands for input that \<open>JSON.parse\<close> rejects.
\<close>

definition exampleParse :: "string \<Rightarrow> json option" where
  \<open>exampleParse text =
     (if text = ''{"type":"register","name":"Alice","mobile":"111"}''
      then Some (JObject [(''type'', JString ''register''), (''name'', JString ''Alice''),
                          (''mobile'', JString ''111'')])
      else if text = ''{"type":"register","name":"Bob","mobile":"222"}''
      then Some (JObject [(''type'', JString ''register''), (''name'', JString ''Bob''),
                          (''mobile'', JString ''222'')])
      else if text = ''{"type":"register","name":"Gen","mobile":"general"}''
      then Some (JObject [(''type'', JString ''register''), (''name'', JString ''Gen''),
                          (''mobile'', JString ''general'')])
      else if text = ''{"type":"register","name":{"toString":1},"mobile":"9"}''
      then Some (JObject [(''type'', JString ''register''),
                          (''name'', JObject [(''toString'', JNumber (Finite 1))]),
                          (''mobile'', JString ''9'')])
      else if text = ''{"type":"join_group","groupName":"general"}''
      then Some (JObject [(''type'', JString ''join_group''), (''groupName'', JString ''general'')])
      else if text = ''{"type":"join_group","groupName":{"toString":1}}''
      then Some (JObject [(''type'', JString ''join_group''),
                          (''groupName'', JObject [(''toString'', JNumber (Finite 1))])])
      else if text = ''{"type":"message","to":"222","content":"hi"}''
      then Some (JObject [(''type'', JString ''message''), (''to'', JString ''222''),
                          (''content'', JString ''hi'')])
      else if text = ''{"type":"message","to":"general","content":"yo"}''
      then Some (JObject [(''type'', JString ''message''), (''to'', JString ''general''),
                          (''content'', JString ''yo'')])
      else if text = ''null'' then Some JNull
      else if text = ''42'' then Some (JNumber (Finite 42))
      else None)\<close>

definition exampleSession :: "event list" where
  \<open>exampleSession =
     [Frame 1 ''{"type":"register","name":"Alice","mobile":"111"}'',
      Frame 2 ''{"type":"register","name":"Bob","mobile":"222"}'',
      Frame 1 ''{"type":"join_group","groupName":"general"}'',
      Frame 2 ''{"type":"join_group","groupName":"general"}'']\<close>

definition exampleState :: uMessage where
  "exampleState =
     \<lparr>users = [(1, \<lparr>name = Some (JString ''Alice''), mobile = Some (JString ''111'')\<rparr>),
               (2, \<lparr>name = Some (JString ''Bob''), mobile = Some (JString ''222'')\<rparr>)],
      groups = [(Some (JString ''general''), [1, 2])]\<rparr>"



definition shadowSession :: "event list" where
  \<open>shadowSession =
     [Frame 1 ''{"type":"register","name":"Alice","mobile":"111"}'',
      Frame 2 ''{"type":"register","name":"Bob","mobile":"222"}'',
      Frame 2 ''{"type":"join_group","groupName":"general"}'',
      Frame 3 ''{"type":"register","name":"Gen","mobile":"general"}'',
      Close 2]\<close>

definition shadowState :: uMessage where
  "shadowState =
     \<lparr>users = [(1, \<lparr>name = Some (JString ''Alice''), mobile = Some (JString ''111'')\<rparr>),
               (3, \<lparr>name = Some (JString ''Gen''), mobile = Some (JString ''general'')\<rparr>)],
      groups = [(Some (JString ''general''), [])]\<rparr>"

section \<open>Basic facts\<close>

subsection \<open>Values\<close>

lemma strictEquals_iff: "strictEquals a b \<longleftrightarrow> primitive a \<and> a = b"
proof (cases a)
  case None
  then show ?thesis by (cases b) simp_all
next
  case (Some x)
  show ?thesis
  proof (cases b)
    case None
    with Some show ?thesis by (cases x) simp_all
  next
    case (Some y)
    with \<open>a = Some x\<close> show ?thesis by (cases x; cases y) simp_all
  qed
qed

lemma throws_primitive: "primitive v \<Longrightarrow> \<not> throws v"
  by (induction v rule: primitive.induct) (simp_all add: throws_def)

subsection \<open>Effects\<close>

lemma sent_append: "sent (xs @ ys) = sent xs @ sent ys"
  by (induction xs rule: sent.induct) simp_all

lemma logged_append: "logged (xs @ ys) = logged xs @ logged ys"
  by (induction xs rule: logged.induct) simp_all

lemma sent_map_Send: "sent (map (\<lambda>x. Send (f x) (g x)) xs) = map (\<lambda>x. (f x, g x)) xs"
  by (induction xs) simp_all

lemma logged_map_Send: "logged (map (\<lambda>x. Send (f x) (g x)) xs) = []"
  by (induction xs) simp_all


lemma sent_sendToOthers:
  "sent (sendToOthers ws p m) = map (\<lambda>s. (s, p)) (filter (\<lambda>s. s \<noteq> ws) (map fst m))"
  by (induction m) auto

lemma otherUsers_filter: "otherUsers ws m = map snd (filter (\<lambda>(s, u). s \<noteq> ws) m)"
  by (induction m) auto

lemma keys_others:
  "filter (\<lambda>s. s \<noteq> c) (map fst m) = map fst (filter (\<lambda>(s, u). s \<noteq> c) m)"
  by (induction m) auto



subsection \<open>Maps keyed by sockets\<close>

lemma Map_get_None_iff: "Map_get (=) m k = None \<longleftrightarrow> k \<notin> fst ` set m"
  by (induction m) (auto split: if_splits)

lemma Map_get_Map_set: "Map_get (=) (Map_set (=) k v m) k' = (if k' = k then Some v else Map_get (=) m k')"
  by (induction m) auto



lemma others_Map_set:
  "filter (\<lambda>(s, u). s \<noteq> ws) (Map_set (=) ws v m) = filter (\<lambda>(s, u). s \<noteq> ws) m"
  by (induction m) auto

lemma keys_Map_delete: "map fst (Map_delete (=) k m) = filter (\<lambda>k'. k' \<noteq> k) (map fst m)"
  by (induction m) auto

lemma keys_Map_delete_notin: "k \<notin> fst ` set (Map_delete (=) k m)"
  by (induction m) (auto split: if_splits)

lemma targetSocket_find:
  "targetSocket m to = map_option fst (find (\<lambda>(s, u). strictEquals (mobile u) to) m)"
  by (induction m) auto

lemma targetSocket_registered: "targetSocket m to = Some s \<Longrightarrow> s \<in> fst ` set m"
  by (induction m) (auto split: if_splits)

subsection \<open>Maps under any comparison of keys\<close>

lemma Map_has_keys: "Map_has eq m k \<longleftrightarrow> (\<exists>k' \<in> fst ` set m. eq k' k)"
  by (induction m) (auto simp: Map_has_def)

lemma Map_set_same: "Map_get eq m k = Some v \<Longrightarrow> Map_set eq k v m = m"
  by (induction m) (auto split: if_splits)

lemma Map_get_set_found:
  "Map_get eq m k = Some v' \<Longrightarrow> Map_get eq (Map_set eq k v m) k = Some v"
  by (induction m) (auto split: if_splits)

lemma keys_Map_set_found: "Map_get eq m k = Some v' \<Longrightarrow> map fst (Map_set eq k v m) = map fst m"
  by (induction m) (auto split: if_splits)


lemma distinct_members:
  "list_all (\<lambda>(groupName, group). distinct group) m \<Longrightarrow> Map_get eq m k = Some ms \<Longrightarrow> distinct ms"
  by (induction m) (auto split: if_splits)

lemma Map_get_scrub:
  "Map_get eq (map (\<lambda>(groupName, group). (groupName, f group)) m) g =
     map_option f (Map_get eq m g)"
  by (induction m) auto

lemma Map_get_Map_delete_same: "Map_get eq (Map_delete eq k m) k = None"
  by (induction m) auto

lemma Map_get_append:
  "Map_get eq (m @ [(k', v)]) k =
     (case Map_get eq m k of Some x \<Rightarrow> Some x | None \<Rightarrow> if eq k' k then Some v else None)"
  by (induction m) auto

lemma Map_get_key: "Map_get strictEquals m k = Some v \<Longrightarrow> k \<in> fst ` set m \<and> primitive k"
proof -
  assume "Map_get strictEquals m k = Some v"
  then have "Map_has strictEquals m k" by (simp add: Map_has_def)
  then show ?thesis by (auto simp: Map_has_keys strictEquals_iff)
qed

subsection \<open>Sets\<close>

lemma set_Set_delete: "set (Set_delete x xs) = set xs - {x}"
  by (induction xs) auto



lemma Set_delete_only: "set ms \<subseteq> {c} \<Longrightarrow> Set_delete c ms = []"
  by (induction ms) auto

subsection \<open>The private handlers\<close>

lemma users_handleRegister:
  "users (fst (handleRegister c json st)) =
     Map_set (=) c \<lparr>name = map_of json ''name'', mobile = map_of json ''mobile''\<rparr> (users st)"
  by (simp add: handleRegister_def Let_def)

lemma groups_handleRegister: "groups (fst (handleRegister c json st)) = groups st"
  by (simp add: handleRegister_def Let_def)

lemma sent_handleRegister:
  "sent (fst (snd (handleRegister c json st))) =
     (if throws (map_of json ''name'') \<or> throws (map_of json ''mobile'')
      then [(c, Registered True)]
      else [(c, Registered True),
            (c, GroupList (Map_keys (groups st))),
            (c, UserList (map snd (filter (\<lambda>(s, u). s \<noteq> c) (users st))))]
           @ map (\<lambda>(s, u). (s, UserJoined \<lparr>name = map_of json ''name'', mobile = map_of json ''mobile''\<rparr>))
               (filter (\<lambda>(s, u). s \<noteq> c) (users st)))"
  by (simp add: handleRegister_def Let_def sent_append sent_sendToOthers otherUsers_filter
      others_Map_set keys_others case_prod_beta)

lemma thrown_handleRegister:
  "snd (snd (handleRegister c json st)) =
     (if throws (map_of json ''name'') \<or> throws (map_of json ''mobile'')
      then Some TypeError else None)"
  by (simp add: handleRegister_def Let_def)

lemma groups_handleJoinGroup:
  "groups (fst (handleJoinGroup ws json st)) =
     (case Map_get strictEquals (groups st) (map_of json ''groupName'') of
        None \<Rightarrow> groups st @ [(map_of json ''groupName'', [ws])]
      | Some ms \<Rightarrow> Map_set strictEquals (map_of json ''groupName'') (Set_add ws ms) (groups st))"
  by (auto simp: handleJoinGroup_def Let_def Map_has_def Set_add_def split: option.splits)

lemma users_handleJoinGroup: "users (fst (handleJoinGroup ws json st)) = users st"
  by (simp add: handleJoinGroup_def Let_def)


lemma thrown_handleJoinGroup:
  "snd (snd (handleJoinGroup ws json st)) =
     (if throws (map_of json ''groupName'') then Some TypeError else None)"
  by (simp add: handleJoinGroup_def Let_def)


lemma member_after_join:
  "primitive (map_of json ''groupName'') \<Longrightarrow>
   \<exists>ms. Map_get strictEquals (groups (fst (handleJoinGroup ws json st))) (map_of json ''groupName'') = Some ms
        \<and> ws \<in> set ms"
  by (auto simp: groups_handleJoinGroup Map_get_append Map_get_set_found Set_add_def
      strictEquals_iff split: option.splits)

lemma join_by_member:
  assumes "Map_get strictEquals (groups st) (map_of json ''groupName'') = Some ms" and "ws \<in> set ms"
  shows "fst (handleJoinGroup ws json st) = st"
proof -
  have "groups (fst (handleJoinGroup ws json st)) = groups st"
    using assms by (simp add: groups_handleJoinGroup Set_add_def Map_set_same)
  then show ?thesis
    using users_handleJoinGroup [of ws json st]
    by (cases st, cases "fst (handleJoinGroup ws json st)") simp
qed

lemma state_handleChatMessage: "fst (handleChatMessage ws json st) = st"
  by (simp add: handleChatMessage_def Let_def split: option.splits)

lemma thrown_handleChatMessage: "snd (snd (handleChatMessage ws json st)) = None"
  by (simp add: handleChatMessage_def Let_def split: option.splits)

lemma sent_handleChatMessage:
  "sent (fst (snd (handleChatMessage ws json st))) =
     map (\<lambda>socket. (socket, messagePayload (Map_get (=) (users st) ws) (map_of json ''to'') (map_of json ''content'')))
       (case Map_get strictEquals (groups st) (map_of json ''to'') of
          Some members \<Rightarrow> members
        | None \<Rightarrow> (case find (\<lambda>(socket, u). strictEquals (mobile u) (map_of json ''to'')) (users st) of
                     Some (socket, u) \<Rightarrow> [socket]
                   | None \<Rightarrow> []))"
  by (auto simp: handleChatMessage_def Let_def Map_has_def targetSocket_find sent_map_Send
      split: option.splits)

lemma logged_handleChatMessage: "logged (fst (snd (handleChatMessage ws json st))) = []"
  by (simp add: handleChatMessage_def Let_def logged_map_Send split: option.splits)

subsection \<open>Dispatch\<close>

lemma sent_caught_tail:
  "sent (out @ (case thrown of None \<Rightarrow> [] | Some e \<Rightarrow> [Console (ErrorProcessing e)])) = sent out"
  by (simp add: sent_append split: option.splits)

lemma handleMessage_register:
  "JSON_parse text = Some (JObject json) \<Longrightarrow> map_of json ''type'' = Some (JString ''register'') \<Longrightarrow>
   handleMessage JSON_parse ws text st =
     (fst (handleRegister ws json st),
      Console (Received text) # fst (snd (handleRegister ws json st))
      @ (case snd (snd (handleRegister ws json st)) of
           None \<Rightarrow> [] | Some e \<Rightarrow> [Console (ErrorProcessing e)]))"
  by (simp add: handleMessage_def split: prod.splits)

lemma handleMessage_join_group:
  "JSON_parse text = Some (JObject json) \<Longrightarrow> map_of json ''type'' = Some (JString ''join_group'') \<Longrightarrow>
   handleMessage JSON_parse ws text st =
     (fst (handleJoinGroup ws json st),
      Console (Received text) # fst (snd (handleJoinGroup ws json st))
      @ (case snd (snd (handleJoinGroup ws json st)) of
           None \<Rightarrow> [] | Some e \<Rightarrow> [Console (ErrorProcessing e)]))"
  by (simp add: handleMessage_def split: prod.splits)

lemma handleMessage_message:
  "JSON_parse text = Some (JObject json) \<Longrightarrow> map_of json ''type'' = Some (JString ''message'') \<Longrightarrow>
   handleMessage JSON_parse ws text st =
     (fst (handleChatMessage ws json st),
      Console (Received text) # fst (snd (handleChatMessage ws json st)))"
  using thrown_handleChatMessage [of ws json st]
  by (auto simp: handleMessage_def split: prod.splits)

lemma handleMessage_other:
  "\<forall>json. JSON_parse text = Some (JObject json) \<longrightarrow>
      map_of json ''type'' \<noteq> Some (JString ''register'')
    \<and> map_of json ''type'' \<noteq> Some (JString ''join_group'')
    \<and> map_of json ''type'' \<noteq> Some (JString ''message'') \<Longrightarrow>
   fst (handleMessage JSON_parse ws text st) = st
   \<and> sent (snd (handleMessage JSON_parse ws text st)) = []"
  by (simp add: handleMessage_def split: option.splits json.splits)

lemma handleMessage_cases:
  obtains (other) "\<forall>json. JSON_parse text = Some (JObject json) \<longrightarrow>
      map_of json ''type'' \<noteq> Some (JString ''register'')
    \<and> map_of json ''type'' \<noteq> Some (JString ''join_group'')
    \<and> map_of json ''type'' \<noteq> Some (JString ''message'')"
  | (register) json where "JSON_parse text = Some (JObject json)"
      "map_of json ''type'' = Some (JString ''register'')"
  | (join_group) json where "JSON_parse text = Some (JObject json)"
      "map_of json ''type'' = Some (JString ''join_group'')"
  | (message) json where "JSON_parse text = Some (JObject json)"
      "map_of json ''type'' = Some (JString ''message'')"
  by (cases "JSON_parse text") auto

subsection \<open>Well-formed states are kept\<close>








subsection \<open>Closing\<close>

lemma users_handleClose: "users (fst (handleClose c st)) = Map_delete (=) c (users st)"
  by (simp add: handleClose_def Let_def)

lemma groups_handleClose:
  "groups (fst (handleClose c st)) = map (\<lambda>(groupName, group). (groupName, Set_delete c group)) (groups st)"
  by (simp add: handleClose_def Let_def)

lemma sent_handleClose:
  "sent (snd (handleClose c st)) =
     (case Map_get (=) (users st) c of
        None \<Rightarrow> []
      | Some u \<Rightarrow> map (\<lambda>s. (s, UserLeft (mobile u))) (filter (\<lambda>s. s \<noteq> c) (map fst (users st))))"
  by (simp add: handleClose_def Let_def sent_sendToOthers split: option.splits)

lemma keys_handleClose: "map fst (groups (fst (handleClose c st))) = map fst (groups st)"
  by (simp add: groups_handleClose comp_def case_prod_beta)

subsection \<open>Runs\<close>

lemma run_append: "run JSON_parse (es @ es') st = run JSON_parse es' (run JSON_parse es st)"
  by (induction es arbitrary: st) simp_all



lemma keys_step:
  "set (Map_keys (groups st)) \<subseteq> set (Map_keys (groups (fst (step JSON_parse e st))))"
proof (cases e)
  case (Open ws)
  then show ?thesis by (simp add: handleOpen_def)
next
  case (Close ws)
  then show ?thesis by (simp add: Map_keys_def keys_handleClose)
next
  case (Frame ws t)
  show ?thesis
  proof (cases rule: handleMessage_cases [of JSON_parse t])
    case other
    then show ?thesis
      using Frame handleMessage_other [of JSON_parse t ws st] by simp
  next
    case (register json)
    then show ?thesis
      using Frame handleMessage_register [of JSON_parse t json ws st]
      by (simp add: groups_handleRegister)
  next
    case (join_group json)
    have "set (map fst (groups st)) \<subseteq> set (map fst (groups (fst (handleJoinGroup ws json st))))"
      by (cases "Map_get strictEquals (groups st) (map_of json ''groupName'')")
        (auto simp: groups_handleJoinGroup keys_Map_set_found)
    then show ?thesis
      using Frame join_group handleMessage_join_group [of JSON_parse t json ws st]
      by (simp add: Map_keys_def)
  next
    case (message json)
    then show ?thesis
      using Frame handleMessage_message [of JSON_parse t json ws st]
      by (simp add: state_handleChatMessage)
  qed
qed

lemma keys_run:
  "set (Map_keys (groups st)) \<subseteq> set (Map_keys (groups (run JSON_parse es st)))"
proof (induction es arbitrary: st)
  case Nil
  show ?case by simp
next
  case (Cons e es)
  have "set (Map_keys (groups st)) \<subseteq> set (Map_keys (groups (fst (step JSON_parse e st))))"
    by (rule keys_step)
  also have "\<dots> \<subseteq> set (Map_keys (groups (run JSON_parse es (fst (step JSON_parse e st)))))"
    by (rule Cons.IH)
  finally show ?case by simp
qed

subsection \<open>The examples\<close>

lemmas handler_defs =
  handleMessage_def handleRegister_def handleJoinGroup_def handleChatMessage_def
  handleClose_def handleOpen_def Map_has_def Map_keys_def Set_add_def messagePayload_def
  throws_def Let_def

lemma exampleState_reached: "run exampleParse exampleSession constructor = exampleState"
  by (simp add: exampleSession_def exampleState_def exampleParse_def constructor_def handler_defs)


lemma shadowState_reached: "run exampleParse shadowSession constructor = shadowState"
  by (simp add: shadowSession_def shadowState_def exampleParse_def constructor_def handler_defs)

lemma wf_exampleState: "wf exampleState"
  by (simp add: exampleState_def wf_def)

lemma exampleParse_to_222:
  \<open>exampleParse ''{"type":"message","to":"222","content":"hi"}'' =
     Some (JObject [(''type'', JString ''message''), (''to'', JString ''222''),
                    (''content'', JString ''hi'')])\<close>
  by (simp add: exampleParse_def)

lemma exampleParse_to_general:
  \<open>exampleParse ''{"type":"message","to":"general","content":"yo"}'' =
     Some (JObject [(''type'', JString ''message''), (''to'', JString ''general''),
                    (''content'', JString ''yo'')])\<close>
  by (simp add: exampleParse_def)

lemma exampleParse_join_general:
  \<open>exampleParse ''{"type":"join_group","groupName":"general"}'' =
     Some (JObject [(''type'', JString ''join_group''), (''groupName'', JString ''general'')])\<close>
  by (simp add: exampleParse_def)

lemma exampleParse_register_Gen:
  \<open>exampleParse ''{"type":"register","name":"Gen","mobile":"general"}'' =
     Some (JObject [(''type'', JString ''register''), (''name'', JString ''Gen''),
                    (''mobile'', JString ''general'')])\<close>
  by (simp add: exampleParse_def)

section \<open>Routing a message\<close>

text \<open>
  C1. A frame of type \<open>message\<close> goes to the members of the group named \<open>to\<close>
  when \<open>groups\<close> has that key, to each member once and to the sender as well when
  the sender is one of them; otherwise it goes to the first entry of \<open>users\<close>, in
  iteration order, whose \<open>mobile\<close> equals \<open>to\<close>, and to nobody when there is none.
  Every recipient gets the same payload, and the state is left as it was.
\<close>

theorem message_routing:
  assumes "JSON_parse text = Some (JObject json)"
    and "map_of json ''type'' = Some (JString ''message'')"
  shows "map fst (sent (snd (handleMessage JSON_parse ws text st))) =
           (case Map_get strictEquals (groups st) (map_of json ''to'') of
              Some members \<Rightarrow> members
            | None \<Rightarrow> (case find (\<lambda>(socket, u). strictEquals (mobile u) (map_of json ''to''))
                              (users st) of
                         Some (socket, u) \<Rightarrow> [socket]
                       | None \<Rightarrow> []))
       \<and> (wf st \<longrightarrow> distinct (map fst (sent (snd (handleMessage JSON_parse ws text st)))))
       \<and> snd ` set (sent (snd (handleMessage JSON_parse ws text st))) \<subseteq>
           {messagePayload (Map_get (=) (users st) ws) (map_of json ''to'') (map_of json ''content'')}
       \<and> fst (handleMessage JSON_parse ws text st) = st"
proof -
  let ?out = "sent (snd (handleMessage JSON_parse ws text st))"
  let ?dest = "case Map_get strictEquals (groups st) (map_of json ''to'') of
              Some members \<Rightarrow> members
            | None \<Rightarrow> (case find (\<lambda>(socket, u). strictEquals (mobile u) (map_of json ''to''))
                              (users st) of
                         Some (socket, u) \<Rightarrow> [socket]
                       | None \<Rightarrow> [])"
  have out: "?out = map (\<lambda>socket. (socket, messagePayload (Map_get (=) (users st) ws)
                 (map_of json ''to'') (map_of json ''content''))) ?dest"
    using assms handleMessage_message [of JSON_parse "text" json ws st]
    by (simp add: sent_handleChatMessage)
  have 1: "map fst ?out = ?dest"
    by (simp only: out) (simp add: comp_def)
  have 2: "wf st \<longrightarrow> distinct ?dest"
    by (auto simp: wf_def distinct_members split: option.splits)
  have 3: "snd ` set ?out \<subseteq> {messagePayload (Map_get (=) (users st) ws)
                 (map_of json ''to'') (map_of json ''content'')}"
    by (simp only: out) auto
  have 4: "fst (handleMessage JSON_parse ws text st) = st"
    using assms handleMessage_message [of JSON_parse "text" json ws st]
    by (simp add: state_handleChatMessage)
  show ?thesis using 1 2 3 4 by simp
qed

theorem message_routing_witness:
  \<open>exampleParse ''{"type":"message","to":"general","content":"yo"}'' =
     Some (JObject [(''type'', JString ''message''), (''to'', JString ''general''),
                    (''content'', JString ''yo'')])
   \<and> wf exampleState
   \<and> map fst (sent (snd (handleMessage exampleParse 1
        ''{"type":"message","to":"general","content":"yo"}'' exampleState))) = [1, 2]
   \<and> map fst (sent (snd (handleMessage exampleParse 1
        ''{"type":"message","to":"222","content":"hi"}'' exampleState))) = [2]
   \<and> map fst (sent (snd (handleMessage exampleParse 1
        ''{"type":"message","to":"222","content":"hi"}'' shadowState))) = []\<close>
proof -
  have g: \<open>map fst (sent (snd (handleMessage exampleParse 1
        ''{"type":"message","to":"general","content":"yo"}'' exampleState))) = [1, 2]\<close>
    using message_routing [where JSON_parse = exampleParse and ws = 1 and st = exampleState,
        OF exampleParse_to_general]
    by (simp add: exampleState_def)
  have d: \<open>map fst (sent (snd (handleMessage exampleParse 1
        ''{"type":"message","to":"222","content":"hi"}'' exampleState))) = [2]\<close>
    using message_routing [where JSON_parse = exampleParse and ws = 1 and st = exampleState,
        OF exampleParse_to_222]
    by (simp add: exampleState_def)
  have n: \<open>map fst (sent (snd (handleMessage exampleParse 1
        ''{"type":"message","to":"222","content":"hi"}'' shadowState))) = []\<close>
    using message_routing [where JSON_parse = exampleParse and ws = 1 and st = shadowState,
        OF exampleParse_to_222]
    by (simp add: shadowState_def)
  show ?thesis
    using g d n exampleParse_to_general wf_exampleState by simp
qed

section \<open>After a disconnect\<close>

text \<open>
  C2. After any sequence of events, from any state, once the close of connection
  \<open>c\<close> has been handled \<open>c\<close> is no key of \<open>users\<close>, so the lookup by
  \<open>mobile\<close> cannot return it, and \<open>c\<close> is in no group's member set.
\<close>

theorem disconnected_absent:
  "Map_get (=) (users (run JSON_parse (es @ [Close c]) st)) c = None
   \<and> (\<forall>to. targetSocket (users (run JSON_parse (es @ [Close c]) st)) to \<noteq> Some c)
   \<and> (\<forall>(groupName, members) \<in> set (groups (run JSON_parse (es @ [Close c]) st)). c \<notin> set members)"
proof -
  let ?pre = "run JSON_parse es st"
  have r: "run JSON_parse (es @ [Close c]) st = fst (handleClose c ?pre)"
    by (simp add: run_append)
  have a: "c \<notin> fst ` set (users (fst (handleClose c ?pre)))"
    by (simp only: users_handleClose keys_Map_delete_notin not_False_eq_True)
  have 1: "Map_get (=) (users (fst (handleClose c ?pre))) c = None"
    using a by (simp add: Map_get_None_iff)
  have 2: "\<forall>to. targetSocket (users (fst (handleClose c ?pre))) to \<noteq> Some c"
    using a targetSocket_registered by blast
  have 3: "\<forall>(groupName, members) \<in> set (groups (fst (handleClose c ?pre))). c \<notin> set members"
    by (auto simp: groups_handleClose set_Set_delete)
  show ?thesis using 1 2 3 by (simp only: r) simp
qed

theorem disconnected_absent_witness:
  "groups (run exampleParse (exampleSession @ [Close 2]) constructor) =
     [(Some (JString ''general''), [1])]
   \<and> Map_get (=) (users (run exampleParse (exampleSession @ [Close 2]) constructor)) 2 = None
   \<and> (\<forall>to. targetSocket (users (run exampleParse (exampleSession @ [Close 2]) constructor)) to \<noteq> Some 2)"
proof -
  have "groups (run exampleParse (exampleSession @ [Close 2]) constructor) =
      [(Some (JString ''general''), [1])]"
    by (simp add: run_append exampleState_reached) (simp add: exampleState_def handleClose_def)
  then show ?thesis
    using disconnected_absent [of exampleParse exampleSession 2 constructor] by simp
qed

section \<open>Registration\<close>

text \<open>
  What \<open>_handleRegister\<close> does on a frame whose \<open>name\<close> and \<open>mobile\<close> convert
  to strings: \<open>registered\<close>, \<open>group_list\<close> and \<open>user_list\<close> to \<open>c\<close> in this
  order, the list holding the entry of every registered socket other than \<open>c\<close> once,
  then \<open>user_joined\<close> to each of those sockets and never to \<open>c\<close>. On any other
  frame only \<open>registered\<close> is sent.
\<close>

lemma register_sends:
  assumes "JSON_parse text = Some (JObject json)"
    and "map_of json ''type'' = Some (JString ''register'')"
  shows "let st' = fst (handleMessage JSON_parse c text st);
             new = \<lparr>name = map_of json ''name'', mobile = map_of json ''mobile''\<rparr>;
             others = filter (\<lambda>(socket, u). socket \<noteq> c) (users st')
         in Map_get (=) (users st') c = Some new
          \<and> sent (snd (handleMessage JSON_parse c text st)) =
              (if throws (map_of json ''name'') \<or> throws (map_of json ''mobile'')
               then [(c, Registered True)]
               else [(c, Registered True),
                     (c, GroupList (Map_keys (groups st))),
                     (c, UserList (map snd others))]
                    @ map (\<lambda>(socket, u). (socket, UserJoined new)) others)
          \<and> fst ` set others = fst ` set (users st') - {c}
          \<and> others = filter (\<lambda>(socket, u). socket \<noteq> c) (users st)
          \<and> (wf st \<longrightarrow> distinct (map fst others))
          \<and> (\<forall>u. (c, UserJoined u) \<notin> set (sent (snd (handleMessage JSON_parse c text st))))"
proof -
  let ?new = "\<lparr>name = map_of json ''name'', mobile = map_of json ''mobile''\<rparr>"
  let ?st' = "fst (handleMessage JSON_parse c text st)"
  let ?others = "filter (\<lambda>(socket, u). socket \<noteq> c) (users ?st')"
  have h: "handleMessage JSON_parse c text st =
     (fst (handleRegister c json st),
      Console (Received text) # fst (snd (handleRegister c json st))
      @ (case snd (snd (handleRegister c json st)) of
           None \<Rightarrow> [] | Some e \<Rightarrow> [Console (ErrorProcessing e)]))"
    using assms by (rule handleMessage_register)
  have us: "users ?st' = Map_set (=) c ?new (users st)"
    by (simp add: h users_handleRegister)
  have 1: "Map_get (=) (users ?st') c = Some ?new"
    by (simp add: us Map_get_Map_set)
  have 4: "?others = filter (\<lambda>(socket, u). socket \<noteq> c) (users st)"
    by (simp add: us others_Map_set)
  have 2: "sent (snd (handleMessage JSON_parse c text st)) =
              (if throws (map_of json ''name'') \<or> throws (map_of json ''mobile'')
               then [(c, Registered True)]
               else [(c, Registered True),
                     (c, GroupList (Map_keys (groups st))),
                     (c, UserList (map snd ?others))]
                    @ map (\<lambda>(socket, u). (socket, UserJoined ?new)) ?others)"
    by (simp only: 4) (simp add: h sent_caught_tail sent_handleRegister)
  have 3: "fst ` set ?others = fst ` set (users ?st') - {c}"
    by force
  have 5: "wf st \<longrightarrow> distinct (map fst ?others)"
    by (simp only: 4) (simp add: wf_def distinct_map_filter)
  have 6: "\<forall>u. (c, UserJoined u) \<notin> set (sent (snd (handleMessage JSON_parse c text st)))"
    by (simp only: 2) auto
  show ?thesis
    unfolding Let_def by (intro conjI 1 2 3 4 5 6)
qed

text \<open>
  C3. Every \<open>register\<close> frame from \<open>c\<close> should bring \<open>c\<close> the acknowledgement,
  the group list and the user list, and the others a \<open>user_joined\<close>. The frame
  \<open>{"type":"register","name":{"toString":1},"mobile":"9"}\<close> from socket 3, with
  Alice and Bob registered, does not: the socket is entered in \<open>users\<close> and sent
  \<open>registered\<close>, then the log line throws a \<open>TypeError\<close>, which \<open>handleMessage\<close>
  catches and logs, and neither list nor any \<open>user_joined\<close> is sent.
\<close>

theorem register_log_line_throws:
  \<open>sent (snd (handleMessage exampleParse 3
       ''{"type":"register","name":{"toString":1},"mobile":"9"}'' exampleState)) =
     [(3, Registered True)]
   \<and> logged (snd (handleMessage exampleParse 3
       ''{"type":"register","name":{"toString":1},"mobile":"9"}'' exampleState)) =
     [Received ''{"type":"register","name":{"toString":1},"mobile":"9"}'',
      ErrorProcessing TypeError]
   \<and> users (fst (handleMessage exampleParse 3
       ''{"type":"register","name":{"toString":1},"mobile":"9"}'' exampleState)) =
     users exampleState
     @ [(3, \<lparr>name = Some (JObject [(''toString'', JNumber (Finite 1))]),
              mobile = Some (JString ''9'')\<rparr>)]
   \<and> map fst (users exampleState) = [1, 2]\<close>
  by (simp add: exampleParse_def exampleState_def handler_defs)

section \<open>Joining a group\<close>




section \<open>The broadcast on disconnect\<close>

text \<open>
  C5. On the close of \<open>c\<close>: when \<open>c\<close> was registered, \<open>user_left\<close> with the
  \<open>mobile\<close> of its entry goes to each socket that stays registered, once each, and
  never to \<open>c\<close>; when \<open>c\<close> was not registered, nothing is sent. The sends are
  fixed by \<open>users\<close> as it was before \<open>c\<close> is deleted and do not depend on
  \<open>groups\<close>, which is scrubbed afterwards.
\<close>

theorem close_broadcast:
  "sent (snd (handleClose c st)) =
     (case Map_get (=) (users st) c of
        None \<Rightarrow> []
      | Some u \<Rightarrow> map (\<lambda>socket. (socket, UserLeft (mobile u)))
                   (map fst (users (fst (handleClose c st)))))
   \<and> map fst (users (fst (handleClose c st))) = filter (\<lambda>socket. socket \<noteq> c) (map fst (users st))
   \<and> c \<notin> fst ` set (sent (snd (handleClose c st)))
   \<and> (wf st \<longrightarrow> distinct (map fst (sent (snd (handleClose c st)))))
   \<and> (\<forall>gs. sent (snd (handleClose c (st\<lparr>groups := gs\<rparr>))) = sent (snd (handleClose c st)))"
proof -
  have 2: "map fst (users (fst (handleClose c st))) = filter (\<lambda>socket. socket \<noteq> c) (map fst (users st))"
    by (simp add: users_handleClose keys_Map_delete)
  have 1: "sent (snd (handleClose c st)) =
     (case Map_get (=) (users st) c of
        None \<Rightarrow> []
      | Some u \<Rightarrow> map (\<lambda>socket. (socket, UserLeft (mobile u)))
                   (map fst (users (fst (handleClose c st)))))"
    by (simp only: 2 sent_handleClose)
  have 3: "c \<notin> fst ` set (sent (snd (handleClose c st)))"
    by (auto simp: sent_handleClose split: option.splits)
  have 4: "wf st \<longrightarrow> distinct (map fst (sent (snd (handleClose c st))))"
    by (auto simp: sent_handleClose wf_def comp_def split: option.splits)
  have 5: "\<forall>gs. sent (snd (handleClose c (st\<lparr>groups := gs\<rparr>))) = sent (snd (handleClose c st))"
    by (simp add: sent_handleClose cong: option.case_cong)
  show ?thesis by (intro conjI 1 2 3 4 5)
qed

theorem close_broadcast_witness:
  "wf exampleState
   \<and> sent (snd (handleClose 2 exampleState)) = [(1, UserLeft (Some (JString ''222'')))]
   \<and> sent (snd (handleClose 7 exampleState)) = []
   \<and> map fst (users (fst (handleClose 2 exampleState))) = [1]"
proof -
  show ?thesis
    using close_broadcast [of 2 exampleState] close_broadcast [of 7 exampleState] wf_exampleState
    by (simp add: exampleState_def handleClose_def)
qed

section \<open>Malformed frames\<close>

text \<open>
  C6. A frame that \<open>JSON.parse\<close> rejects, or whose value is not an object of one of
  the three known types, is written to the console and dropped: the state is the one
  before, nothing is sent, and \<open>handleMessage\<close> returns normally, the exception
  (a \<open>SyntaxError\<close> from the parser, a \<open>TypeError\<close> from reading \<open>.type\<close> of
  \<open>null\<close>) ending in the \<open>catch\<close> that logs it. No effect closes a socket.
\<close>

theorem malformed_frame_dropped:
  assumes "\<forall>json. JSON_parse text = Some (JObject json) \<longrightarrow>
             map_of json ''type'' \<noteq> Some (JString ''register'')
           \<and> map_of json ''type'' \<noteq> Some (JString ''join_group'')
           \<and> map_of json ''type'' \<noteq> Some (JString ''message'')"
  shows "fst (handleMessage JSON_parse ws text st) = st
       \<and> sent (snd (handleMessage JSON_parse ws text st)) = []
       \<and> logged (snd (handleMessage JSON_parse ws text st)) =
           (case JSON_parse text of
              None \<Rightarrow> [Received text, ErrorProcessing SyntaxError]
            | Some JNull \<Rightarrow> [Received text, ErrorProcessing TypeError]
            | Some _ \<Rightarrow> [Received text])"
  using assms by (simp add: handleMessage_def split: option.splits json.splits)

theorem malformed_frame_dropped_witness:
  "exampleParse ''{oops'' = None
   \<and> fst (handleMessage exampleParse 2 ''{oops'' exampleState) = exampleState
   \<and> sent (snd (handleMessage exampleParse 2 ''{oops'' exampleState)) = []
   \<and> logged (snd (handleMessage exampleParse 2 ''{oops'' exampleState)) =
        [Received ''{oops'', ErrorProcessing SyntaxError]"
proof -
  have n: "exampleParse ''{oops'' = None"
    by (simp add: exampleParse_def)
  then show ?thesis
    using malformed_frame_dropped [of exampleParse "''{oops''" 2 exampleState] by simp
qed

section \<open>Messages from unregistered sockets\<close>

text \<open>
  C7. A \<open>message\<close> frame from a socket that \<open>users\<close> does not hold is routed
  like any other: no error is logged, the recipients are those of C1, and each payload
  carries \<open>from = "Anonymous"\<close> and \<open>fromMobile = "?"\<close>.
\<close>

theorem unregistered_sender_anonymous:
  assumes "JSON_parse text = Some (JObject json)"
    and "map_of json ''type'' = Some (JString ''message'')"
    and "Map_get (=) (users st) ws = None"
  shows "sent (snd (handleMessage JSON_parse ws text st)) =
           map (\<lambda>socket. (socket, ChatMessage (Some (JString ''Anonymous'')) (Some (JString ''?''))
                                     (map_of json ''to'') (map_of json ''content'')))
             (case Map_get strictEquals (groups st) (map_of json ''to'') of
                Some members \<Rightarrow> members
              | None \<Rightarrow> (case find (\<lambda>(socket, u). strictEquals (mobile u) (map_of json ''to''))
                                (users st) of
                           Some (socket, u) \<Rightarrow> [socket]
                         | None \<Rightarrow> []))
       \<and> logged (snd (handleMessage JSON_parse ws text st)) = [Received text]
       \<and> fst (handleMessage JSON_parse ws text st) = st"
  using assms handleMessage_message [of JSON_parse "text" json ws st]
  by (simp add: sent_handleChatMessage logged_handleChatMessage state_handleChatMessage
      messagePayload_def)

theorem unregistered_sender_anonymous_witness:
  \<open>exampleParse ''{"type":"message","to":"general","content":"yo"}'' =
     Some (JObject [(''type'', JString ''message''), (''to'', JString ''general''),
                    (''content'', JString ''yo'')])
   \<and> Map_get (=) (users exampleState) 7 = None
   \<and> sent (snd (handleMessage exampleParse 7
        ''{"type":"message","to":"general","content":"yo"}'' exampleState)) =
       [(1, ChatMessage (Some (JString ''Anonymous'')) (Some (JString ''?''))
              (Some (JString ''general'')) (Some (JString ''yo''))),
        (2, ChatMessage (Some (JString ''Anonymous'')) (Some (JString ''?''))
              (Some (JString ''general'')) (Some (JString ''yo'')))]
   \<and> sent (snd (handleMessage exampleParse 7
        ''{"type":"message","to":"222","content":"hi"}'' exampleState)) =
       [(2, ChatMessage (Some (JString ''Anonymous'')) (Some (JString ''?''))
              (Some (JString ''222'')) (Some (JString ''hi'')))]\<close>
proof -
  have u: "Map_get (=) (users exampleState) 7 = None"
    by (simp add: exampleState_def)
  have g: \<open>sent (snd (handleMessage exampleParse 7
        ''{"type":"message","to":"general","content":"yo"}'' exampleState)) =
       [(1, ChatMessage (Some (JString ''Anonymous'')) (Some (JString ''?''))
              (Some (JString ''general'')) (Some (JString ''yo''))),
        (2, ChatMessage (Some (JString ''Anonymous'')) (Some (JString ''?''))
              (Some (JString ''general'')) (Some (JString ''yo'')))]\<close>
    using unregistered_sender_anonymous [where JSON_parse = exampleParse,
        OF exampleParse_to_general _ u]
    by (simp add: exampleState_def)
  have d: \<open>sent (snd (handleMessage exampleParse 7
        ''{"type":"message","to":"222","content":"hi"}'' exampleState)) =
       [(2, ChatMessage (Some (JString ''Anonymous'')) (Some (JString ''?''))
              (Some (JString ''222'')) (Some (JString ''hi'')))]\<close>
    using unregistered_sender_anonymous [where JSON_parse = exampleParse,
        OF exampleParse_to_222 _ u]
    by (simp add: exampleState_def)
  show ?thesis
    using u g d exampleParse_to_general by simp
qed

section \<open>Joining twice\<close>

text \<open>
  C8. A \<open>join_group\<close> frame from a socket that is already in the named group's
  member set changes nothing in the state; so a second join of the same name by the
  same socket, whatever frame carries it, leaves the whole state, and with it the
  group's member set and its size, as the first join left it. Two frames carry the
  same name when \<open>Map\<close> takes their names for one key.
\<close>

theorem join_group_idempotent:
  assumes "JSON_parse text = Some (JObject json)"
    and "map_of json ''type'' = Some (JString ''join_group'')"
    and "JSON_parse text' = Some (JObject json')"
    and "map_of json' ''type'' = Some (JString ''join_group'')"
    and "strictEquals (map_of json ''groupName'') (map_of json' ''groupName'')"
  shows "fst (handleMessage JSON_parse ws text' (fst (handleMessage JSON_parse ws text st))) =
           fst (handleMessage JSON_parse ws text st)
       \<and> (\<forall>ms. Map_get strictEquals (groups st) (map_of json ''groupName'') = Some ms \<and> ws \<in> set ms
               \<longrightarrow> fst (handleMessage JSON_parse ws text st) = st)"
proof -
  let ?st1 = "fst (handleJoinGroup ws json st)"
  have a: "fst (handleMessage JSON_parse ws text s) = fst (handleJoinGroup ws json s)" for s
    using assms(1,2) handleMessage_join_group [of JSON_parse "text" json ws s] by simp
  have b: "fst (handleMessage JSON_parse ws text' s) = fst (handleJoinGroup ws json' s)" for s
    using assms(3,4) handleMessage_join_group [of JSON_parse "text'" json' ws s] by simp
  have p: "primitive (map_of json ''groupName'')"
    and e: "map_of json' ''groupName'' = map_of json ''groupName''"
    using assms(5) by (auto simp: strictEquals_iff)
  obtain ms where m: "Map_get strictEquals (groups ?st1) (map_of json' ''groupName'') = Some ms"
      "ws \<in> set ms"
    using member_after_join [OF p, of ws st] e by auto
  have 1: "fst (handleJoinGroup ws json' ?st1) = ?st1"
    using m by (rule join_by_member)
  have 2: "\<forall>ms. Map_get strictEquals (groups st) (map_of json ''groupName'') = Some ms \<and> ws \<in> set ms
               \<longrightarrow> fst (handleJoinGroup ws json st) = st"
    using join_by_member by blast
  show ?thesis using 1 2 by (simp add: a b)
qed

theorem join_group_idempotent_witness:
  \<open>exampleParse ''{"type":"join_group","groupName":"general"}'' =
     Some (JObject [(''type'', JString ''join_group''), (''groupName'', JString ''general'')])
   \<and> groups (fst (handleMessage exampleParse 2 ''{"type":"join_group","groupName":"general"}''
        (exampleState\<lparr>groups := [(Some (JString ''general''), [1])]\<rparr>))) =
      [(Some (JString ''general''), [1, 2])]
   \<and> fst (handleMessage exampleParse 2 ''{"type":"join_group","groupName":"general"}''
        (fst (handleMessage exampleParse 2 ''{"type":"join_group","groupName":"general"}''
           (exampleState\<lparr>groups := [(Some (JString ''general''), [1])]\<rparr>)))) =
      fst (handleMessage exampleParse 2 ''{"type":"join_group","groupName":"general"}''
        (exampleState\<lparr>groups := [(Some (JString ''general''), [1])]\<rparr>))
   \<and> fst (handleMessage exampleParse 2 ''{"type":"join_group","groupName":"general"}''
        exampleState) = exampleState\<close>
proof -
  have g: \<open>groups (fst (handleMessage exampleParse 2 ''{"type":"join_group","groupName":"general"}''
        (exampleState\<lparr>groups := [(Some (JString ''general''), [1])]\<rparr>))) =
      [(Some (JString ''general''), [1, 2])]\<close>
    by (simp add: exampleParse_def exampleState_def handler_defs)
  have m: "Map_get strictEquals (groups exampleState) (Some (JString ''general'')) = Some [1, 2]
           \<and> 2 \<in> set [1, 2 :: nat]"
    by (simp add: exampleState_def)
  show ?thesis
    using g m exampleParse_join_general
      join_group_idempotent [where JSON_parse = exampleParse and ws = 2
        and st = "exampleState\<lparr>groups := [(Some (JString ''general''), [1])]\<rparr>",
        OF exampleParse_join_general _ exampleParse_join_general]
      join_group_idempotent [where JSON_parse = exampleParse and ws = 2 and st = exampleState,
        OF exampleParse_join_general _ exampleParse_join_general]
    by simp
qed

section \<open>Groups are never removed\<close>

text \<open>
  C9. No event removes a key of \<open>groups\<close>: after any sequence of events every
  group name known before is still known. A close leaves the list of names as it is
  and only takes the socket out of each member set, so a group whose only member
  closes stays in \<open>groups\<close> with no members, and stays there through whatever
  follows.
\<close>

theorem group_names_persist:
  "set (Map_keys (groups st)) \<subseteq> set (Map_keys (groups (run JSON_parse es st)))
   \<and> Map_keys (groups (fst (handleClose c st))) = Map_keys (groups st)
   \<and> (\<forall>g ms. Map_get strictEquals (groups st) g = Some ms \<and> set ms \<subseteq> {c} \<longrightarrow>
         Map_get strictEquals (groups (fst (handleClose c st))) g = Some []
         \<and> g \<in> set (Map_keys (groups (run JSON_parse es (fst (handleClose c st))))))"
proof -
  have 2: "Map_keys (groups (fst (handleClose c st))) = Map_keys (groups st)"
    by (simp add: Map_keys_def keys_handleClose)
  have 3: "Map_get strictEquals (groups (fst (handleClose c st))) g = Some []
         \<and> g \<in> set (Map_keys (groups (run JSON_parse es (fst (handleClose c st)))))"
    if "Map_get strictEquals (groups st) g = Some ms \<and> set ms \<subseteq> {c}" for g ms
  proof -
    have e: "Map_get strictEquals (groups (fst (handleClose c st))) g = Some []"
      using that by (simp add: groups_handleClose Map_get_scrub Set_delete_only)
    then have "g \<in> set (Map_keys (groups (fst (handleClose c st))))"
      using Map_get_key [of "groups (fst (handleClose c st))" g "[]"]
      by (simp add: Map_keys_def)
    then show ?thesis
      using e keys_run [of "fst (handleClose c st)" JSON_parse es] by blast
  qed
  show ?thesis
    using keys_run [of st JSON_parse es] 2 3 by blast
qed

theorem group_names_persist_witness:
  \<open>Map_keys (groups (run exampleParse
       [Close 1, Close 2, Frame 3 ''{"type":"register","name":"Gen","mobile":"general"}'']
       exampleState)) = [Some (JString ''general'')]
   \<and> Map_get strictEquals (groups (fst (handleClose 2 (fst (handleClose 1 exampleState)))))
       (Some (JString ''general'')) = Some []
   \<and> Map_get strictEquals (groups (fst (handleClose 1 exampleState)))
       (Some (JString ''general'')) = Some [2]\<close>
proof -
  have m: "Map_get strictEquals (groups (fst (handleClose 1 exampleState)))
             (Some (JString ''general'')) = Some [2]
           \<and> set [2::nat] \<subseteq> {2}"
    by (simp add: exampleState_def handleClose_def)
  have k: \<open>Map_keys (groups (run exampleParse
       [Close 1, Close 2, Frame 3 ''{"type":"register","name":"Gen","mobile":"general"}'']
       exampleState)) = [Some (JString ''general'')]\<close>
    by (simp add: exampleState_def exampleParse_def handler_defs)
  show ?thesis
    using m k group_names_persist [of "fst (handleClose 1 exampleState)" exampleParse "[]" 2]
    by simp
qed

section \<open>An empty group hides a user\<close>

text \<open>
  C10. When \<open>groups\<close> holds the key \<open>g\<close> with an empty member set while a
  registered user has \<open>mobile = g\<close>, a message to \<open>g\<close> reaches nobody; with the
  group taken out of \<open>groups\<close> the same frame reaches that user.
\<close>

theorem empty_group_shadows_user:
  assumes "JSON_parse text = Some (JObject json)"
    and "map_of json ''type'' = Some (JString ''message'')"
    and "Map_get strictEquals (groups st) (map_of json ''to'') = Some []"
    and "find (\<lambda>(socket, u). strictEquals (mobile u) (map_of json ''to'')) (users st) =
           Some (target, u)"
  shows "sent (snd (handleMessage JSON_parse ws text st)) = []
       \<and> map fst (sent (snd (handleMessage JSON_parse ws text
            (st\<lparr>groups := Map_delete strictEquals (map_of json ''to'') (groups st)\<rparr>)))) = [target]"
proof -
  have 1: "sent (snd (handleMessage JSON_parse ws text st)) = []"
    using assms(1,2,3) handleMessage_message [of JSON_parse "text" json ws st]
    by (simp add: sent_handleChatMessage)
  let ?st = "st\<lparr>groups := Map_delete strictEquals (map_of json ''to'') (groups st)\<rparr>"
  have 2: "map fst (sent (snd (handleMessage JSON_parse ws text ?st))) = [target]"
    using assms(1,2,4) handleMessage_message [of JSON_parse "text" json ws ?st]
    by (simp add: sent_handleChatMessage Map_get_Map_delete_same)
  show ?thesis using 1 2 by simp
qed

theorem empty_group_shadows_user_witness:
  \<open>exampleParse ''{"type":"message","to":"general","content":"yo"}'' =
     Some (JObject [(''type'', JString ''message''), (''to'', JString ''general''),
                    (''content'', JString ''yo'')])
   \<and> run exampleParse shadowSession constructor = shadowState
   \<and> Map_get strictEquals (groups shadowState) (Some (JString ''general'')) = Some []
   \<and> find (\<lambda>(socket, u). strictEquals (mobile u) (Some (JString ''general''))) (users shadowState) =
       Some (3, \<lparr>name = Some (JString ''Gen''), mobile = Some (JString ''general'')\<rparr>)
   \<and> sent (snd (handleMessage exampleParse 1
        ''{"type":"message","to":"general","content":"yo"}'' shadowState)) = []
   \<and> map fst (sent (snd (handleMessage exampleParse 1
        ''{"type":"message","to":"general","content":"yo"}''
        (shadowState\<lparr>groups := Map_delete strictEquals (Some (JString ''general''))
                                   (groups shadowState)\<rparr>)))) = [3]\<close>
proof -
  have g: "Map_get strictEquals (groups shadowState)
      (map_of [(''type'', JString ''message''), (''to'', JString ''general''),
               (''content'', JString ''yo'')] ''to'') = Some []"
    by (simp add: shadowState_def)
  have f: "find (\<lambda>(socket, u). strictEquals (mobile u)
      (map_of [(''type'', JString ''message''), (''to'', JString ''general''),
               (''content'', JString ''yo'')] ''to'')) (users shadowState) =
       Some (3, \<lparr>name = Some (JString ''Gen''), mobile = Some (JString ''general'')\<rparr>)"
    by (simp add: shadowState_def)
  show ?thesis
    using empty_group_shadows_user [where JSON_parse = exampleParse and ws = 1,
        OF exampleParse_to_general _ g f] g f
      exampleParse_to_general shadowState_reached
    by simp
qed


end
